theory Spec2Isabelle
  imports Main "HOL-Library.AList" "HOL-Library.Char_ord" "HOL-Library.List_Lexorder"
begin

section \<open>JavaScript values and objects\<close>

text \<open>
  The values that travel through \<^verbatim>\<open>pentagon.ts\<close>: field values of entities, key parts
  and version stamps.  Numbers are integers here (no arithmetic is done on them).
\<close>

datatype jsval = JUndefined | JNull | JBool bool | JNum int | JStr string

text \<open>
  A plain object is the list of its own enumerable properties in insertion order, each
  name once.  An entity, a \<^verbatim>\<open>where\<close> and a \<^verbatim>\<open>data\<close> argument are such objects.
\<close>

type_synonym entity = "(string \<times> jsval) list"

text \<open>\<^verbatim>\<open>obj[f]\<close>: the value of a property, \<^verbatim>\<open>undefined\<close> when the object has none.\<close>

definition field :: "entity \<Rightarrow> string \<Rightarrow> jsval" where
  "field obj f = (case map_of obj f of None \<Rightarrow> JUndefined | Some v \<Rightarrow> v)"

text \<open>\<^verbatim>\<open>a ?? b\<close>: the right operand when the left one is \<^verbatim>\<open>null\<close> or \<^verbatim>\<open>undefined\<close>.\<close>

definition nullish :: "jsval \<Rightarrow> jsval \<Rightarrow> jsval" where
  "nullish a b = (if a = JUndefined \<or> a = JNull then b else a)"

text \<open>
  \<^verbatim>\<open>{ ...a, ...b }\<close>: the properties of \<^verbatim>\<open>a\<close>, then each property of \<^verbatim>\<open>b\<close> in turn
  assigned: an existing name keeps its place and takes the new value, a new name is
  appended.
\<close>

definition spread :: "entity \<Rightarrow> entity \<Rightarrow> entity" where
  "spread a b = fold (\<lambda>(k, v). AList.update k v) b a"

text \<open>\<^verbatim>\<open>xs?.[0]\<close> on an array: its first element, \<^verbatim>\<open>undefined\<close> (\<open>None\<close>) when it is empty.\<close>

definition first :: "'a list \<Rightarrow> 'a option" where
  "first xs = (case xs of [] \<Rightarrow> None | x # _ \<Rightarrow> Some x)"

section \<open>Errors, the store and asynchronous calls\<close>

text \<open>
  A physical key is a pair of a namespace and a value (\<^verbatim>\<open>[tableName, value]\<close>).  An entry
  read from the store has the three fields \<^verbatim>\<open>key\<close>, \<^verbatim>\<open>value\<close> and \<^verbatim>\<open>versionstamp\<close>
  that \<^verbatim>\<open>pentagon.ts\<close> reads from the items \<^verbatim>\<open>whereToKeys\<close> returns.
\<close>

type_synonym kvkey = "string \<times> jsval"

record kv_entry =
  key :: kvkey
  value' :: entity
  versionstamp :: jsval

text \<open>
  \<open>PentagonUpdateError\<close> is the one error \<^verbatim>\<open>pentagon.ts\<close> raises itself.  The other
  three are the failures of the store layer as the specification names them.
\<close>

datatype error =
    PentagonUpdateError string
  | SchemaMismatchError string
  | DuplicateKeyError kvkey
  | ConflictError kvkey

text \<open>
  Modelled from the spec: the store behind \<^verbatim>\<open>kv\<close> is the external Store Adapter
  (sections 2 and 6), an ordered, versioned key-value store.  It holds its entries in key
  order, each with the version stamp of the commit that wrote it, and the version stamp of
  the last commit.
\<close>

record kv_store =
  entries :: "(kvkey \<times> entity \<times> nat) list"
  clock :: nat

text \<open>
  An \<^verbatim>\<open>async\<close> function that is handed \<^verbatim>\<open>kv\<close> takes the store and gives back what it
  returned or threw together with the store it left.  \<open>await\<close> runs the continuation on
  a returned value and lets a thrown error pass, as \<^verbatim>\<open>await\<close> in a function without
  \<^verbatim>\<open>try\<close> does.
\<close>

type_synonym 'a async = "kv_store \<Rightarrow> (error + 'a) \<times> kv_store"

definition return :: "'a \<Rightarrow> 'a async" where
  "return x = (\<lambda>kv. (Inr x, kv))"

definition throw :: "error \<Rightarrow> 'a async" where
  "throw e = (\<lambda>kv. (Inl e, kv))"

definition await :: "'a async \<Rightarrow> ('a \<Rightarrow> 'b async) \<Rightarrow> 'b async" where
  "await m k = (\<lambda>kv. case m kv of (Inl e, kv') \<Rightarrow> (Inl e, kv') | (Inr x, kv') \<Rightarrow> k x kv')"

text \<open>A synchronous call that may throw, inside an \<^verbatim>\<open>async\<close> function.\<close>

definition call :: "error + 'a \<Rightarrow> ('a \<Rightarrow> 'b async) \<Rightarrow> 'b async" where
  "call r k = (case r of Inl e \<Rightarrow> throw e | Inr x \<Rightarrow> k x)"

section \<open>Table definitions and arguments\<close>

text \<open>
  Modelled from the spec: \<^verbatim>\<open>types.ts\<close> is not among the sources.  A table definition
  maps each field name to its declaration (section 6: \<^verbatim>\<open>isPrimaryKey\<close>, \<^verbatim>\<open>isIndex\<close>), in
  declaration order; \<^verbatim>\<open>pentagon.ts\<close> reads its \<^verbatim>\<open>schema\<close> only.  The arguments of every
  verb have the one shape of section 6, \<^verbatim>\<open>{ where?, data?, select? }\<close>; the type of
  \<^verbatim>\<open>data\<close> depends on the verb (an entity, a list of entities, or nothing).
\<close>

record field_decl =
  isPrimaryKey :: bool
  isIndex :: bool

record TableDefinition =
  schema :: "(string \<times> field_decl) list"

record 'd Args =
  where' :: "entity option"
  select :: "string list option"
  data :: 'd

text \<open>A key as \<^verbatim>\<open>schemaToKeys\<close> hands it to \<^verbatim>\<open>keysToIndexes\<close>.\<close>

record PentagonKey =
  primary :: bool
  fieldName :: string
  keyValue :: jsval

section \<open>The imports of \<^verbatim>\<open>pentagon.ts\<close>\<close>

text \<open>
  \<^verbatim>\<open>pentagon.ts\<close> imports \<^verbatim>\<open>create\<close>, \<^verbatim>\<open>findMany\<close>, \<^verbatim>\<open>remove\<close>, \<^verbatim>\<open>update\<close> from
  \<^verbatim>\<open>crud.ts\<close> and \<^verbatim>\<open>keysToIndexes\<close>, \<^verbatim>\<open>schemaToKeys\<close>, \<^verbatim>\<open>whereToKeys\<close> from \<^verbatim>\<open>keys.ts\<close>.
  Their bodies are not among the sources (\<^verbatim>\<open>crud.ts\<close> holds commented-out reference
  code only), so the functions of \<^verbatim>\<open>pentagon.ts\<close> take them as a parameter.  The \<^verbatim>\<open>kv\<close>
  argument of the asynchronous ones is the store the call runs on.
\<close>

record deps =
  create :: "entity \<Rightarrow> kvkey list \<Rightarrow> entity async"
  findMany :: "string \<Rightarrow> TableDefinition \<Rightarrow> unit Args \<Rightarrow> entity list async"
  remove :: "kvkey list \<Rightarrow> unit async"
  update :: "entity list \<Rightarrow> kvkey list \<Rightarrow> entity list async"
  keysToIndexes :: "string \<Rightarrow> PentagonKey list \<Rightarrow> error + kvkey list"
  schemaToKeys :: "(string \<times> field_decl) list \<Rightarrow> entity \<Rightarrow> error + PentagonKey list"
  whereToKeys :: "string \<Rightarrow> kvkey list \<Rightarrow> entity \<Rightarrow> kv_entry list async"

section \<open>\<^verbatim>\<open>pentagon.ts\<close>\<close>

text \<open>\<^verbatim>\<open>queryArgs.where ?? []\<close> and \<^verbatim>\<open>queryArgs.where ?? {}\<close>: both defaults have no
  own enumerable property.\<close>

definition where_or_empty :: "'d Args \<Rightarrow> entity" where
  "where_or_empty queryArgs = (case where' queryArgs of None \<Rightarrow> [] | Some w \<Rightarrow> w)"

definition createImpl :: "deps \<Rightarrow> string \<Rightarrow> TableDefinition \<Rightarrow> entity Args \<Rightarrow> entity async" where
  "createImpl im tableName tableDefinition createArgs =
     call (schemaToKeys im (schema tableDefinition) (data createArgs)) (\<lambda>keys.
     call (keysToIndexes im tableName keys) (\<lambda>indexKeys.
     create im (data createArgs) indexKeys))"

text \<open>The loop of \<^verbatim>\<open>createManyImpl\<close>: the items still to create, and \<^verbatim>\<open>createdItems\<close>.\<close>

fun createMany_loop ::
  "deps \<Rightarrow> string \<Rightarrow> TableDefinition \<Rightarrow> string list option \<Rightarrow> entity list \<Rightarrow> entity list
     \<Rightarrow> entity list async" where
  "createMany_loop im tableName tableDefinition sel [] createdItems = return createdItems"
| "createMany_loop im tableName tableDefinition sel (item # rest) createdItems =
     await (createImpl im tableName tableDefinition \<lparr>where' = None, select = sel, data = item\<rparr>)
       (\<lambda>created. createMany_loop im tableName tableDefinition sel rest (createdItems @ [created]))"

definition createManyImpl ::
  "deps \<Rightarrow> string \<Rightarrow> TableDefinition \<Rightarrow> entity list Args \<Rightarrow> entity list async" where
  "createManyImpl im tableName tableDefinition createManyArgs =
     createMany_loop im tableName tableDefinition (select createManyArgs) (data createManyArgs) []"

definition deleteImpl :: "deps \<Rightarrow> string \<Rightarrow> TableDefinition \<Rightarrow> unit Args \<Rightarrow> unit async" where
  "deleteImpl im tableName tableDefinition queryArgs =
     call (schemaToKeys im (schema tableDefinition) (where_or_empty queryArgs)) (\<lambda>keys.
     call (keysToIndexes im tableName keys) (\<lambda>indexKeys.
     await (whereToKeys im tableName indexKeys (where_or_empty queryArgs)) (\<lambda>foundItems.
     remove im (map key foundItems))))"

definition deleteManyImpl :: "deps \<Rightarrow> string \<Rightarrow> TableDefinition \<Rightarrow> unit Args \<Rightarrow> unit async" where
  "deleteManyImpl im tableName tableDefinition queryArgs =
     call (schemaToKeys im (schema tableDefinition) (where_or_empty queryArgs)) (\<lambda>keys.
     call (keysToIndexes im tableName keys) (\<lambda>indexKeys.
     await (whereToKeys im tableName indexKeys (where_or_empty queryArgs)) (\<lambda>foundItems.
     remove im (map key foundItems))))"

text \<open>The \<^verbatim>\<open>// Merge\<close> step of \<^verbatim>\<open>updateManyImpl\<close>.\<close>

definition updatedItems :: "entity Args \<Rightarrow> kv_entry list \<Rightarrow> kv_entry list" where
  "updatedItems updateArgs foundItems =
     map (\<lambda>existingItem.
       \<lparr>key = key existingItem,
        value' = spread (value' existingItem) (data updateArgs),
        versionstamp = nullish (field (data updateArgs) ''versionstamp'') (versionstamp existingItem)\<rparr>)
       foundItems"

definition updateManyImpl ::
  "deps \<Rightarrow> string \<Rightarrow> TableDefinition \<Rightarrow> entity Args \<Rightarrow> entity list async" where
  "updateManyImpl im tableName tableDefinition updateArgs =
     call (schemaToKeys im (schema tableDefinition) (where_or_empty updateArgs)) (\<lambda>keys.
     call (keysToIndexes im tableName keys) (\<lambda>indexKeys.
     await (whereToKeys im tableName indexKeys (where_or_empty updateArgs)) (\<lambda>foundItems.
     if length foundItems = 0 then throw (PentagonUpdateError ''Updating zero elements.'')
     else update im (map value' (updatedItems updateArgs foundItems)) (map key foundItems))))"

definition updateImpl ::
  "deps \<Rightarrow> string \<Rightarrow> TableDefinition \<Rightarrow> entity Args \<Rightarrow> entity option async" where
  "updateImpl im tableName tableDefinition updateArgs =
     await (updateManyImpl im tableName tableDefinition updateArgs) (\<lambda>updated. return (first updated))"

definition findManyImpl ::
  "deps \<Rightarrow> string \<Rightarrow> TableDefinition \<Rightarrow> unit Args \<Rightarrow> entity list async" where
  "findManyImpl im tableName tableDefinition queryArgs =
     findMany im tableName tableDefinition queryArgs"

definition findFirstImpl ::
  "deps \<Rightarrow> string \<Rightarrow> TableDefinition \<Rightarrow> unit Args \<Rightarrow> entity option async" where
  "findFirstImpl im tableName tableDefinition queryArgs =
     await (findMany im tableName tableDefinition queryArgs) (\<lambda>found. return (first found))"

section \<open>The store layer\<close>

text \<open>
  Modelled from the spec: the Store Adapter (sections 2 and 6) is the external ordered,
  versioned key-value store.  \<open>store_get\<close> is its \<^verbatim>\<open>get\<close>, \<open>store_list\<close> its \<^verbatim>\<open>list\<close>
  over one namespace, in key order, and \<open>atomicApply\<close> its compare-and-set batch: every
  check compares the version stamp a key holds now (\<open>None\<close> for an absent key) with the
  expected one; if all agree the mutations are applied under one fresh version stamp,
  otherwise nothing is applied and the key of the first failing check is reported.
\<close>

fun jsval_rank :: "jsval \<Rightarrow> nat" where
  "jsval_rank JUndefined = 0"
| "jsval_rank JNull = 1"
| "jsval_rank (JBool _) = 2"
| "jsval_rank (JNum _) = 3"
| "jsval_rank (JStr _) = 4"

fun jsval_le :: "jsval \<Rightarrow> jsval \<Rightarrow> bool" where
  "jsval_le (JBool a) (JBool b) = (a \<le> b)"
| "jsval_le (JNum a) (JNum b) = (a \<le> b)"
| "jsval_le (JStr a) (JStr b) = (a \<le> b)"
| "jsval_le a b = (jsval_rank a \<le> jsval_rank b)"

definition key_le :: "kvkey \<Rightarrow> kvkey \<Rightarrow> bool" where
  "key_le a b = (fst a < fst b \<or> (fst a = fst b \<and> jsval_le (snd a) (snd b)))"

definition store_get :: "kv_store \<Rightarrow> kvkey \<Rightarrow> (entity \<times> nat) option" where
  "store_get kv k = map_of (entries kv) k"

definition store_list :: "kv_store \<Rightarrow> string \<Rightarrow> (kvkey \<times> entity \<times> nat) list" where
  "store_list kv namespace = filter (\<lambda>(k, _). fst k = namespace) (entries kv)"

fun store_put ::
  "kvkey \<Rightarrow> entity \<times> nat \<Rightarrow> (kvkey \<times> entity \<times> nat) list \<Rightarrow> (kvkey \<times> entity \<times> nat) list" where
  "store_put k v [] = [(k, v)]"
| "store_put k v ((k', v') # es) =
     (if k = k' then (k, v) # es
      else if key_le k k' then (k, v) # (k', v') # es
      else (k', v') # store_put k v es)"

definition mutate ::
  "nat \<Rightarrow> kvkey \<times> entity option \<Rightarrow> (kvkey \<times> entity \<times> nat) list \<Rightarrow> (kvkey \<times> entity \<times> nat) list" where
  "mutate stamp m es =
     (case snd m of None \<Rightarrow> AList.delete (fst m) es | Some e \<Rightarrow> store_put (fst m) (e, stamp) es)"

definition check_fails :: "kv_store \<Rightarrow> kvkey \<times> nat option \<Rightarrow> bool" where
  "check_fails kv c = (map_option snd (store_get kv (fst c)) \<noteq> snd c)"

definition atomicApply ::
  "(kvkey \<times> nat option) list \<Rightarrow> (kvkey \<times> entity option) list \<Rightarrow> kv_store \<Rightarrow> (kvkey + nat) \<times> kv_store" where
  "atomicApply checks mutations kv =
     (case find (check_fails kv) checks of
        Some c \<Rightarrow> (Inl (fst c), kv)
      | None \<Rightarrow>
          (let stamp = Suc (clock kv)
           in (Inr stamp, \<lparr>entries = fold (mutate stamp) mutations (entries kv), clock = stamp\<rparr>)))"

text \<open>
  Modelled from the spec: \<^verbatim>\<open>keys.ts\<close> is not among the sources.  \<open>encodeKeys\<close> and
  \<open>physicalKeys\<close> are the Key Encoder of section 4.1 in the two steps \<^verbatim>\<open>pentagon.ts\<close>
  calls (\<^verbatim>\<open>schemaToKeys\<close>, then \<^verbatim>\<open>keysToIndexes\<close>): the primary key first, then one key
  for each indexed field in declaration order; the namespace of the primary key is the
  table name, that of an index \<^verbatim>\<open>{table}_by_{field}\<close> (section 3).  \<^verbatim>\<open>pentagon.ts\<close> runs
  the encoder on the \<^verbatim>\<open>where\<close> of a lookup too, and on \<^verbatim>\<open>[]\<close> when there is none, so the
  encoder itself is total: a declared key field that the object lacks gives a key whose
  value is \<^verbatim>\<open>undefined\<close>.  The \<open>SchemaMismatchError\<close> of section 4.1, for an entity that
  lacks a declared key field, is raised where such a key would be written
  (\<open>writeCreate\<close>); a lookup leaves such keys aside.
\<close>

definition encodeKeys :: "(string \<times> field_decl) list \<Rightarrow> entity \<Rightarrow> PentagonKey list" where
  "encodeKeys sch values =
     map (\<lambda>(f, d). \<lparr>primary = True, fieldName = f, keyValue = field values f\<rparr>)
       (filter (\<lambda>(f, d). isPrimaryKey d) sch)
     @ map (\<lambda>(f, d). \<lparr>primary = False, fieldName = f, keyValue = field values f\<rparr>)
       (filter (\<lambda>(f, d). isIndex d) sch)"

definition physicalKey :: "string \<Rightarrow> PentagonKey \<Rightarrow> kvkey" where
  "physicalKey tableName k =
     (if primary k then (tableName, keyValue k)
      else (tableName @ ''_by_'' @ fieldName k, keyValue k))"

text \<open>
  The physical keys of an entity, both steps together; and the keys under which a stored
  record is held, which are those with a value.
\<close>

definition entityKeys :: "string \<Rightarrow> TableDefinition \<Rightarrow> entity \<Rightarrow> kvkey list" where
  "entityKeys tableName tableDefinition e =
     map (physicalKey tableName) (encodeKeys (schema tableDefinition) e)"

definition recordKeys :: "string \<Rightarrow> TableDefinition \<Rightarrow> entity \<Rightarrow> kvkey list" where
  "recordKeys tableName tableDefinition e =
     filter (\<lambda>k. snd k \<noteq> JUndefined) (entityKeys tableName tableDefinition e)"

text \<open>
  Modelled from the spec: \<^verbatim>\<open>create\<close> of \<^verbatim>\<open>crud.ts\<close> is not among the sources.
  \<open>writeCreate\<close> is section 4.3: one atomic batch that checks every key absent and sets
  every key to the entity; on conflict \<open>DuplicateKeyError\<close> with the first conflicting
  key; on success the entity with its new version stamp (section 4.4).
\<close>

definition writeCreate :: "entity \<Rightarrow> kvkey list \<Rightarrow> entity async" where
  "writeCreate entity keys kv =
     (case find (\<lambda>k. snd k = JUndefined) keys of
        Some k \<Rightarrow> (Inl (SchemaMismatchError (fst k)), kv)
      | None \<Rightarrow>
          (case atomicApply (map (\<lambda>k. (k, None)) keys) (map (\<lambda>k. (k, Some entity)) keys) kv of
             (Inl k, kv') \<Rightarrow> (Inl (DuplicateKeyError k), kv')
           | (Inr stamp, kv') \<Rightarrow> (Inr (spread entity [(''versionstamp'', JNum (int stamp))]), kv')))"

text \<open>
  Modelled from the spec: \<^verbatim>\<open>whereToKeys\<close> of \<^verbatim>\<open>keys.ts\<close> is not among the sources.  It
  is the Index Planner of section 4.2.  A \<^verbatim>\<open>where\<close> of one field that is the primary key
  or an indexed field is a \<open>DirectLookup\<close> (the primary key preferred, else the first
  index key); anything else is a \<open>ScanAndFilter\<close> of the primary namespace.  \<open>execute\<close>
  gives the records in key order.
\<close>

datatype LookupPlan = DirectLookup kvkey | ScanAndFilter string entity

definition plan :: "string \<Rightarrow> kvkey list \<Rightarrow> entity \<Rightarrow> LookupPlan" where
  "plan tableName indexKeys wh =
     (let usable = filter (\<lambda>k. snd k \<noteq> JUndefined) indexKeys
      in if length wh = 1 then
           (case find (\<lambda>k. fst k = tableName) usable of
              Some k \<Rightarrow> DirectLookup k
            | None \<Rightarrow> (case usable of k # _ \<Rightarrow> DirectLookup k | [] \<Rightarrow> ScanAndFilter tableName wh))
         else ScanAndFilter tableName wh)"

definition matches :: "entity \<Rightarrow> entity \<Rightarrow> bool" where
  "matches wh e = list_all (\<lambda>(f, v). field e f = v) wh"

definition record_of :: "kvkey \<times> entity \<times> nat \<Rightarrow> kv_entry" where
  "record_of r = \<lparr>key = fst r, value' = fst (snd r), versionstamp = JNum (int (snd (snd r)))\<rparr>"

fun execute :: "LookupPlan \<Rightarrow> kv_store \<Rightarrow> kv_entry list" where
  "execute (DirectLookup k) kv =
     (case store_get kv k of None \<Rightarrow> [] | Some r \<Rightarrow> [record_of (k, r)])"
| "execute (ScanAndFilter namespace wh) kv =
     map record_of (filter (\<lambda>(k, e, stamp). matches wh e) (store_list kv namespace))"

definition resolve :: "string \<Rightarrow> kvkey list \<Rightarrow> entity \<Rightarrow> kv_entry list async" where
  "resolve tableName indexKeys wh kv = (Inr (execute (plan tableName indexKeys wh) kv), kv)"

text \<open>
  Modelled from the spec: \<^verbatim>\<open>findMany\<close> of \<^verbatim>\<open>crud.ts\<close> is not among the sources.
  Section 4.4: Planner resolution only, no writes; the matching entities with their
  version stamps, in key order.  \<^verbatim>\<open>select\<close> limits the fields returned, never the fields
  matched (section 6).
\<close>

definition selected :: "string list option \<Rightarrow> entity \<Rightarrow> entity" where
  "selected sel e = (case sel of None \<Rightarrow> e | Some fs \<Rightarrow> filter (\<lambda>(f, v). f \<in> set fs) e)"

definition stamped :: "entity \<Rightarrow> jsval \<Rightarrow> entity" where
  "stamped e stamp = spread e [(''versionstamp'', stamp)]"

definition planFindMany :: "string \<Rightarrow> TableDefinition \<Rightarrow> unit Args \<Rightarrow> entity list async" where
  "planFindMany tableName tableDefinition queryArgs kv =
     (let wh = where_or_empty queryArgs;
          indexKeys = map (physicalKey tableName) (encodeKeys (schema tableDefinition) wh)
      in (Inr (map (\<lambda>r. stamped (selected (select queryArgs) (value' r)) (versionstamp r))
                 (execute (plan tableName indexKeys wh) kv)), kv))"

text \<open>
  Modelled from the spec: the Atomic Writer of section 4.3 for a record that exists, an
  entity with the version stamp it was read with.  \<open>writeUpdate\<close> is one atomic batch
  that checks the primary key and each old index key against the record's version stamp,
  deletes each old key the new entity does not occupy and sets each key of the new entity
  to it, so that an index key whose field changed is moved; the keys are the Key
  Encoder's, which refuses an entity without a declared key field.  \<open>writeDelete\<close> is one
  atomic batch that checks the primary key against the record's version stamp and deletes
  the primary key and every index key of the record.  A failed check is a
  \<open>ConflictError\<close>: the record was modified or deleted since it was read.
\<close>

definition writeUpdate ::
  "string \<Rightarrow> TableDefinition \<Rightarrow> entity \<times> nat \<Rightarrow> entity \<Rightarrow> entity async" where
  "writeUpdate tableName tableDefinition existingRecord newEntity kv =
     (let oldKeys = recordKeys tableName tableDefinition (fst existingRecord);
          newKeys = entityKeys tableName tableDefinition newEntity
      in case find (\<lambda>k. snd k = JUndefined) newKeys of
           Some k \<Rightarrow> (Inl (SchemaMismatchError (fst k)), kv)
         | None \<Rightarrow>
             (case atomicApply
                     (map (\<lambda>k. (k, Some (snd existingRecord))) oldKeys)
                     (map (\<lambda>k. (k, None)) (filter (\<lambda>k. k \<notin> set newKeys) oldKeys)
                      @ map (\<lambda>k. (k, Some newEntity)) newKeys) kv of
                (Inl k, kv') \<Rightarrow> (Inl (ConflictError k), kv')
              | (Inr stamp, kv') \<Rightarrow> (Inr (stamped newEntity (JNum (int stamp))), kv')))"

definition writeDelete :: "string \<Rightarrow> TableDefinition \<Rightarrow> entity \<times> nat \<Rightarrow> unit async" where
  "writeDelete tableName tableDefinition existingRecord kv =
     (let keys = recordKeys tableName tableDefinition (fst existingRecord)
      in case atomicApply
                (map (\<lambda>k. (k, Some (snd existingRecord))) (filter (\<lambda>k. fst k = tableName) keys))
                (map (\<lambda>k. (k, None)) keys) kv of
           (Inl k, kv') \<Rightarrow> (Inl (ConflictError k), kv')
         | (Inr stamp, kv') \<Rightarrow> (Inr (), kv'))"

text \<open>
  Modelled from the spec: \<^verbatim>\<open>update\<close> and \<^verbatim>\<open>remove\<close> of \<^verbatim>\<open>crud.ts\<close> are not among the
  sources.  Section 4.4: \<open>writeUpdate\<close> and \<open>writeDelete\<close> are applied per record, in the
  order of the lists, up to the first failure.  \<^verbatim>\<open>pentagon.ts\<close> hands these calls the new
  values and the keys of the found items and no version stamp, so the existing record is
  the one its key holds when the call reaches it, with the version stamp it holds then; a
  key that holds no record any more is a \<open>ConflictError\<close>.  The table is the one the verbs
  of \<^verbatim>\<open>createPentagon\<close> are built for.
\<close>

fun updateRecords ::
  "string \<Rightarrow> TableDefinition \<Rightarrow> entity list \<Rightarrow> kvkey list \<Rightarrow> entity list async" where
  "updateRecords tableName tableDefinition (item # items) (k # keys) kv =
     (case store_get kv k of
        None \<Rightarrow> (Inl (ConflictError k), kv)
      | Some existingRecord \<Rightarrow>
          await (writeUpdate tableName tableDefinition existingRecord item)
            (\<lambda>updated. await (updateRecords tableName tableDefinition items keys)
              (\<lambda>rest. return (updated # rest))) kv)"
| "updateRecords tableName tableDefinition _ _ kv = (Inr [], kv)"

fun removeRecords :: "string \<Rightarrow> TableDefinition \<Rightarrow> kvkey list \<Rightarrow> unit async" where
  "removeRecords tableName tableDefinition [] kv = (Inr (), kv)"
| "removeRecords tableName tableDefinition (k # keys) kv =
     (case store_get kv k of
        None \<Rightarrow> (Inl (ConflictError k), kv)
      | Some existingRecord \<Rightarrow>
          await (writeDelete tableName tableDefinition existingRecord)
            (\<lambda>_. removeRecords tableName tableDefinition keys) kv)"

text \<open>The functions of the store layer for one table, as the imports of \<^verbatim>\<open>pentagon.ts\<close>.\<close>

definition store_layer :: "string \<Rightarrow> TableDefinition \<Rightarrow> deps" where
  "store_layer table definition' =
     \<lparr>create = writeCreate,
      findMany = planFindMany,
      remove = removeRecords table definition',
      update = updateRecords table definition',
      keysToIndexes = (\<lambda>tableName keys. Inr (map (physicalKey tableName) keys)),
      schemaToKeys = (\<lambda>sch values. Inr (encodeKeys sch values)),
      whereToKeys = resolve\<rparr>"

text \<open>
  The table of the specification's scenarios: \<^verbatim>\<open>users\<close> with primary key \<^verbatim>\<open>id\<close>, the
  secondary index \<^verbatim>\<open>email\<close> and a plain field \<^verbatim>\<open>name\<close>; the empty store; three users.
\<close>

definition users :: TableDefinition where
  "users = \<lparr>schema =
     [(''id'', \<lparr>isPrimaryKey = True, isIndex = False\<rparr>),
      (''email'', \<lparr>isPrimaryKey = False, isIndex = True\<rparr>),
      (''name'', \<lparr>isPrimaryKey = False, isIndex = False\<rparr>)]\<rparr>"

definition empty_store :: kv_store where
  "empty_store = \<lparr>entries = [], clock = 0\<rparr>"

definition ann :: entity where
  "ann = [(''id'', JStr ''1''), (''email'', JStr ''a@x.com''), (''name'', JStr ''Ann'')]"

definition bob :: entity where
  "bob = [(''id'', JStr ''2''), (''email'', JStr ''b@x.com''), (''name'', JStr ''Bob'')]"

definition eve :: entity where
  "eve = [(''id'', JStr ''3''), (''email'', JStr ''a@x.com''), (''name'', JStr ''Eve'')]"

definition create_args :: "entity \<Rightarrow> entity Args" where
  "create_args e = \<lparr>where' = None, select = None, data = e\<rparr>"

definition query_args :: "entity \<Rightarrow> unit Args" where
  "query_args wh = \<lparr>where' = Some wh, select = None, data = ()\<rparr>"

definition update_args :: "entity \<Rightarrow> entity \<Rightarrow> entity Args" where
  "update_args wh d = \<lparr>where' = Some wh, select = None, data = d\<rparr>"

text \<open>The stores reached from the empty one by creating \<^verbatim>\<open>ann\<close>, and then \<^verbatim>\<open>bob\<close>.\<close>

definition one_user :: kv_store where
  "one_user = snd (createImpl (store_layer ''users'' users) ''users'' users (create_args ann) empty_store)"

definition two_users :: kv_store where
  "two_users = snd (createImpl (store_layer ''users'' users) ''users'' users (create_args bob) one_user)"

section \<open>Notions used in the statements\<close>

text \<open>
  An entity that has every declared key field; two entities that agree on the value of a
  declared key field (the primary key or an indexed field).
\<close>

definition has_key_fields :: "TableDefinition \<Rightarrow> entity \<Rightarrow> bool" where
  "has_key_fields tableDefinition e =
     list_all (\<lambda>(f, d). (isPrimaryKey d \<or> isIndex d) \<longrightarrow> field e f \<noteq> JUndefined)
       (schema tableDefinition)"

definition shares_key_field :: "TableDefinition \<Rightarrow> entity \<Rightarrow> entity \<Rightarrow> bool" where
  "shares_key_field tableDefinition e1 e2 =
     list_ex (\<lambda>(f, d). (isPrimaryKey d \<or> isIndex d) \<and> field e1 f = field e2 f)
       (schema tableDefinition)"

text \<open>
  The names section 7 of the specification gives to failures, and the name each error of
  the model goes by there.  \<^verbatim>\<open>pentagon.ts\<close> raises \<open>PentagonUpdateError\<close> at one place,
  in \<^verbatim>\<open>updateManyImpl\<close> on an empty resolved set, which section 4.4 calls
  \<^verbatim>\<open>UpdateZeroRowsError\<close>.
\<close>

datatype failure = SchemaMismatch | DuplicateKey | Conflict | NoMatch | UpdateZeroRows | InvalidAccessKey

fun failure_of :: "error \<Rightarrow> failure" where
  "failure_of (PentagonUpdateError _) = UpdateZeroRows"
| "failure_of (SchemaMismatchError _) = SchemaMismatch"
| "failure_of (DuplicateKeyError _) = DuplicateKey"
| "failure_of (ConflictError _) = Conflict"

text \<open>
  The imports with a lookup that reports every record it resolves under the given version
  stamp instead of the one the store holds: what \<^verbatim>\<open>whereToKeys\<close> has observed when the
  record is written again before the write of \<^verbatim>\<open>updateManyImpl\<close> reaches the store.
\<close>

definition observing :: "jsval \<Rightarrow> deps \<Rightarrow> deps" where
  "observing stamp im =
     im\<lparr>whereToKeys := (\<lambda>tableName indexKeys wh kv.
        case whereToKeys im tableName indexKeys wh kv of
          (Inl e, kv') \<Rightarrow> (Inl e, kv')
        | (Inr foundItems, kv') \<Rightarrow>
            (Inr (map (\<lambda>existingItem. existingItem\<lparr>versionstamp := stamp\<rparr>) foundItems), kv'))\<rparr>"

section \<open>Auxiliary facts\<close>

lemma createMany_loop_append:
  "createMany_loop im tn td sel (xs @ ys) acc kv =
     (case createMany_loop im tn td sel xs acc kv of
        (Inl e, kv') \<Rightarrow> (Inl e, kv')
      | (Inr acc', kv') \<Rightarrow> createMany_loop im tn td sel ys acc' kv')"
proof (induction xs arbitrary: acc kv)
  case Nil
  show ?case by (simp add: return_def)
next
  case (Cons x xs)
  show ?case
    by (simp add: await_def Cons.IH split: prod.splits sum.splits)
qed

lemma createMany_fails_at:
  assumes "createManyImpl im tn td \<lparr>where' = w, select = sel, data = before\<rparr> kv = (Inr created, kv1)"
    and "createImpl im tn td \<lparr>where' = None, select = sel, data = item\<rparr> kv1 = (Inl e, kv2)"
  shows "createManyImpl im tn td \<lparr>where' = w, select = sel, data = before @ item # rest\<rparr> kv
           = (Inl e, kv2)"
  using assms by (simp add: createManyImpl_def createMany_loop_append await_def)

lemma updateMany_resolved:
  assumes "schemaToKeys im (schema td) (where_or_empty args) = Inr keys"
    and "keysToIndexes im tn keys = Inr indexKeys"
    and "whereToKeys im tn indexKeys (where_or_empty args) kv = (Inr foundItems, kv')"
  shows "updateManyImpl im tn td args kv =
     (if foundItems = [] then (Inl (PentagonUpdateError ''Updating zero elements.''), kv')
      else update im (map value' (updatedItems args foundItems)) (map key foundItems) kv')"
  using assms by (simp add: updateManyImpl_def call_def await_def throw_def)

lemma deleteMany_resolved:
  assumes "schemaToKeys im (schema td) (where_or_empty args) = Inr keys"
    and "keysToIndexes im tn keys = Inr indexKeys"
    and "whereToKeys im tn indexKeys (where_or_empty args) kv = (Inr foundItems, kv')"
  shows "deleteManyImpl im tn td args kv = remove im (map key foundItems) kv'"
  using assms by (simp add: deleteManyImpl_def call_def await_def throw_def)

lemma map_of_spread:
  "distinct (map fst b) \<Longrightarrow> map_of (spread a b) = map_of a ++ map_of b"
  unfolding spread_def
proof (induction b arbitrary: a)
  case Nil
  show ?case by simp
next
  case (Cons p b)
  obtain k v where p: "p = (k, v)" by (cases p)
  from Cons.prems p have k: "map_of b k = None" and d: "distinct (map fst b)"
    by (auto simp: map_of_eq_None_iff)
  have "map_of (fold (\<lambda>(k, v). AList.update k v) b (AList.update k v a))
          = map_of (AList.update k v a) ++ map_of b"
    by (rule Cons.IH [OF d])
  also have "\<dots> = map_of a ++ map_of ((k, v) # b)"
    using k by (auto simp: update_conv' fun_eq_iff map_add_def split: option.splits)
  finally show ?case by (simp add: p fun_eq_iff map_add_def)
qed

lemma map_of_store_put: "map_of (store_put k v es) = (map_of es)(k \<mapsto> v)"
  by (induction es) (auto simp: fun_eq_iff)

lemma map_of_fold_set:
  "map_of (fold (mutate stamp) (map (\<lambda>k. (k, Some e)) ks) es) k
     = (if k \<in> set ks then Some (e, stamp) else map_of es k)"
  by (induction ks arbitrary: es) (auto simp: mutate_def map_of_store_put)

lemma createImpl_store_layer:
  "createImpl (store_layer tn td) tn td args kv = writeCreate (data args) (entityKeys tn td (data args)) kv"
  by (simp add: createImpl_def store_layer_def call_def entityKeys_def)

lemma entityKeys_defined:
  "has_key_fields td e \<Longrightarrow> find (\<lambda>k. snd k = JUndefined) (entityKeys tn td e) = None"
  by (auto simp: has_key_fields_def entityKeys_def encodeKeys_def physicalKey_def
      find_None_iff list_all_iff)

lemma find_absent_check:
  "find (check_fails kv) (map (\<lambda>k. (k, None)) ks)
     = map_option (\<lambda>k. (k, None)) (find (\<lambda>k. store_get kv k \<noteq> None) ks)"
  by (induction ks) (auto simp: check_fails_def)

lemma writeCreate_conflict:
  assumes "find (\<lambda>k. snd k = JUndefined) ks = None"
    and "find (\<lambda>k. store_get kv k \<noteq> None) ks = Some k"
  shows "writeCreate e ks kv = (Inl (DuplicateKeyError k), kv)"
  using assms by (simp add: writeCreate_def atomicApply_def find_absent_check)

lemma writeCreate_free:
  assumes "find (\<lambda>k. snd k = JUndefined) ks = None"
    and "find (\<lambda>k. store_get kv k \<noteq> None) ks = None"
  shows "\<exists>kv'. writeCreate e ks kv = (Inr (stamped e (JNum (int (Suc (clock kv))))), kv')"
  using assms by (simp add: writeCreate_def atomicApply_def find_absent_check Let_def stamped_def)

lemma writeCreate_success:
  assumes "writeCreate e ks kv = (Inr r, kv')" and "k \<in> set ks"
  shows "store_get kv' k = Some (e, Suc (clock kv))"
  using assms
  by (auto simp: writeCreate_def atomicApply_def find_absent_check store_get_def Let_def
      map_of_fold_set split: option.splits)

lemma shared_key:
  assumes "shares_key_field td e1 e2"
  shows "\<exists>k \<in> set (entityKeys tn td e1). k \<in> set (entityKeys tn td e2)"
proof -
  from assms obtain f d where fd: "(f, d) \<in> set (schema td)"
    and kf: "isPrimaryKey d \<or> isIndex d" and eq: "field e1 f = field e2 f"
    by (auto simp: shares_key_field_def list_ex_iff)
  show ?thesis
  proof (cases "isPrimaryKey d")
    case True
    with fd eq have "(tn, field e1 f) \<in> set (entityKeys tn td e1)"
      and "(tn, field e1 f) \<in> set (entityKeys tn td e2)"
      by (force simp: entityKeys_def encodeKeys_def physicalKey_def image_iff)+
    then show ?thesis by blast
  next
    case False
    with kf have "isIndex d" by simp
    with fd eq have "(tn @ ''_by_'' @ f, field e1 f) \<in> set (entityKeys tn td e1)"
      and "(tn @ ''_by_'' @ f, field e1 f) \<in> set (entityKeys tn td e2)"
      by (force simp: entityKeys_def encodeKeys_def physicalKey_def image_iff)+
    then show ?thesis by blast
  qed
qed

lemma find_present:
  "\<exists>k \<in> set ks. P k \<Longrightarrow> \<exists>k \<in> set ks. P k \<and> find P ks = Some k"
  by (induction ks) auto

lemma store_layer_schemaToKeys:
  "schemaToKeys (store_layer t d) sch values = Inr (encodeKeys sch values)"
  by (simp add: store_layer_def)

lemma store_layer_keysToIndexes:
  "keysToIndexes (store_layer t d) tn (encodeKeys (schema td) values) = Inr (entityKeys tn td values)"
  by (simp add: store_layer_def entityKeys_def)

lemma store_layer_whereToKeys:
  "whereToKeys (store_layer t d) tn indexKeys wh kv = (Inr (execute (plan tn indexKeys wh) kv), kv)"
  by (simp add: store_layer_def resolve_def)

lemma store_layer_update: "update (store_layer t d) = updateRecords t d"
  by (simp add: store_layer_def)

lemma store_layer_remove: "remove (store_layer t d) = removeRecords t d"
  by (simp add: store_layer_def)

lemma map_of_spread_field:
  "distinct (map fst b) \<Longrightarrow>
   map_of (spread a b) f = (case map_of b f of Some v \<Rightarrow> Some v | None \<Rightarrow> map_of a f)"
  by (simp add: map_of_spread map_add_def split: option.splits)

lemma updatedItems_observed:
  "map value' (updatedItems updateArgs (map (\<lambda>existingItem. existingItem\<lparr>versionstamp := stamp\<rparr>) foundItems))
     = map value' (updatedItems updateArgs foundItems)"
  by (simp add: updatedItems_def)

text \<open>
  The store layer on the scenarios of the specification.  Scenario B: after the email of
  \<^verbatim>\<open>ann\<close> is updated, the old email finds no record and the new one finds the record.
  After a delete, neither the primary key nor the index key of the record is held.  A
  record read under a version stamp the store no longer holds is refused by both writers.
\<close>

lemma scenario_B:
  "fst (findManyImpl (store_layer ''users'' users) ''users'' users
          (query_args [(''email'', JStr ''a@x.com'')])
          (snd (updateImpl (store_layer ''users'' users) ''users'' users
                  (update_args [(''id'', JStr ''1'')] [(''email'', JStr ''c@x.com'')]) two_users)))
     = Inr []
   \<and> fst (findManyImpl (store_layer ''users'' users) ''users'' users
          (query_args [(''email'', JStr ''c@x.com'')])
          (snd (updateImpl (store_layer ''users'' users) ''users'' users
                  (update_args [(''id'', JStr ''1'')] [(''email'', JStr ''c@x.com'')]) two_users)))
     = Inr [[(''id'', JStr ''1''), (''email'', JStr ''c@x.com''), (''name'', JStr ''Ann''),
             (''versionstamp'', JNum 3)]]"
  by code_simp

lemma delete_removes_every_key:
  "store_get (snd (deleteImpl (store_layer ''users'' users) ''users'' users
                     (query_args [(''id'', JStr ''2'')]) two_users)) (''users'', JStr ''2'') = None
   \<and> store_get (snd (deleteImpl (store_layer ''users'' users) ''users'' users
                     (query_args [(''id'', JStr ''2'')]) two_users)) (''users_by_email'', JStr ''b@x.com'')
       = None
   \<and> store_get (snd (deleteImpl (store_layer ''users'' users) ''users'' users
                     (query_args [(''id'', JStr ''2'')]) two_users)) (''users'', JStr ''1'')
       = Some (ann, 1)"
  by code_simp

lemma stale_record_refused:
  "writeUpdate ''users'' users (ann, 0) ann two_users
     = (Inl (ConflictError (''users'', JStr ''1'')), two_users)
   \<and> writeDelete ''users'' users (ann, 0) two_users
     = (Inl (ConflictError (''users'', JStr ''1'')), two_users)"
  by code_simp

section \<open>The claims\<close>

text \<open>
  C1.  With the store layer of the specification: for every table definition and every
  entity that has the declared key fields, \<^verbatim>\<open>create\<close> fails with \<open>DuplicateKeyError\<close>,
  naming a key the entity would occupy and leaving the store as it was, when the primary
  key or any secondary-index key the entity would occupy already exists, and succeeds
  when none of them exists; and after a successful \<^verbatim>\<open>create\<close>, creating an entity with
  the same value in the primary-key field or in an indexed field fails with
  \<open>DuplicateKeyError\<close>: of the two, one succeeds.
\<close>

theorem create_duplicate_key:
  assumes "has_key_fields td (data args)"
  shows "((\<exists>k \<in> set (entityKeys tn td (data args)). store_get kv k \<noteq> None) \<longrightarrow>
            (\<exists>k \<in> set (entityKeys tn td (data args)). store_get kv k \<noteq> None \<and>
               createImpl (store_layer tn td) tn td args kv = (Inl (DuplicateKeyError k), kv)))
       \<and> ((\<forall>k \<in> set (entityKeys tn td (data args)). store_get kv k = None) \<longrightarrow>
            (\<exists>r kv'. createImpl (store_layer tn td) tn td args kv = (Inr r, kv')))
       \<and> (createImpl (store_layer tn td) tn td args0 kv0 = (Inr r0, kv) \<and>
            shares_key_field td (data args0) (data args) \<longrightarrow>
            (\<exists>k. createImpl (store_layer tn td) tn td args kv = (Inl (DuplicateKeyError k), kv)))"
proof -
  let ?ks = "entityKeys tn td (data args)"
  have defined: "find (\<lambda>k. snd k = JUndefined) ?ks = None"
    using assms by (rule entityKeys_defined)
  have conflict: "\<exists>k \<in> set ?ks. store_get kv k \<noteq> None \<and>
      createImpl (store_layer tn td) tn td args kv = (Inl (DuplicateKeyError k), kv)"
    if "\<exists>k \<in> set ?ks. store_get kv k \<noteq> None"
  proof -
    from find_present [OF that] obtain k where "k \<in> set ?ks" "store_get kv k \<noteq> None"
      and "find (\<lambda>k. store_get kv k \<noteq> None) ?ks = Some k" by blast
    then show ?thesis
      using writeCreate_conflict [OF defined] by (auto simp: createImpl_store_layer)
  qed
  have free: "\<exists>r kv'. createImpl (store_layer tn td) tn td args kv = (Inr r, kv')"
    if "\<forall>k \<in> set ?ks. store_get kv k = None"
  proof -
    from that have "find (\<lambda>k. store_get kv k \<noteq> None) ?ks = None"
      by (simp add: find_None_iff)
    from writeCreate_free [OF defined this, of "data args"] show ?thesis
      unfolding createImpl_store_layer by blast
  qed
  have second: "\<exists>k. createImpl (store_layer tn td) tn td args kv = (Inl (DuplicateKeyError k), kv)"
    if first: "createImpl (store_layer tn td) tn td args0 kv0 = (Inr r0, kv)"
      and sh: "shares_key_field td (data args0) (data args)"
  proof -
    from shared_key [OF sh] obtain k where k0: "k \<in> set (entityKeys tn td (data args0))"
      and k: "k \<in> set ?ks" by blast
    from first k0 have "store_get kv k \<noteq> None"
      by (simp add: createImpl_store_layer writeCreate_success)
    with k conflict show ?thesis by blast
  qed
  from conflict free second show ?thesis by blast
qed

text \<open>
  Scenario A of the specification: \<^verbatim>\<open>ann\<close> is created in the empty store; \<^verbatim>\<open>eve\<close>, with
  another id and the same email, is refused, and so is a second \<^verbatim>\<open>ann\<close>; \<^verbatim>\<open>bob\<close>, whose
  keys are free, is created.
\<close>

theorem create_duplicate_key_witness:
  "has_key_fields users (data (create_args eve))
   \<and> createImpl (store_layer ''users'' users) ''users'' users (create_args ann) empty_store
       = (Inr (stamped ann (JNum 1)), one_user)
   \<and> shares_key_field users (data (create_args ann)) (data (create_args eve))
   \<and> (\<exists>k \<in> set (entityKeys ''users'' users (data (create_args eve))).
         store_get one_user k \<noteq> None \<and>
         createImpl (store_layer ''users'' users) ''users'' users (create_args eve) one_user
           = (Inl (DuplicateKeyError k), one_user))
   \<and> createImpl (store_layer ''users'' users) ''users'' users (create_args eve) one_user
       = (Inl (DuplicateKeyError (''users_by_email'', JStr ''a@x.com'')), one_user)
   \<and> createImpl (store_layer ''users'' users) ''users'' users (create_args ann) one_user
       = (Inl (DuplicateKeyError (''users'', JStr ''1'')), one_user)
   \<and> (\<exists>r kv'. createImpl (store_layer ''users'' users) ''users'' users (create_args bob) one_user = (Inr r, kv'))"
proof -
  have h: "has_key_fields users (data (create_args eve))"
    by code_simp
  have hb: "has_key_fields users (data (create_args bob))"
    by code_simp
  have first: "createImpl (store_layer ''users'' users) ''users'' users (create_args ann) empty_store
       = (Inr (stamped ann (JNum 1)), one_user)"
    by code_simp
  have sh: "shares_key_field users (data (create_args ann)) (data (create_args eve))"
    by code_simp
  have second: "createImpl (store_layer ''users'' users) ''users'' users (create_args eve) one_user
       = (Inl (DuplicateKeyError (''users_by_email'', JStr ''a@x.com'')), one_user)"
    by code_simp
  have same_id: "createImpl (store_layer ''users'' users) ''users'' users (create_args ann) one_user
       = (Inl (DuplicateKeyError (''users'', JStr ''1'')), one_user)"
    by code_simp
  have present: "\<exists>k \<in> set (entityKeys ''users'' users (data (create_args eve))).
      store_get one_user k \<noteq> None"
    by code_simp
  have free: "\<forall>k \<in> set (entityKeys ''users'' users (data (create_args bob))).
      store_get one_user k = None"
    by code_simp
  have dup: "\<exists>k \<in> set (entityKeys ''users'' users (data (create_args eve))).
         store_get one_user k \<noteq> None \<and>
         createImpl (store_layer ''users'' users) ''users'' users (create_args eve) one_user
           = (Inl (DuplicateKeyError k), one_user)"
    by (rule create_duplicate_key [OF h, THEN conjunct1, THEN mp, OF present])
  have created: "\<exists>r kv'. createImpl (store_layer ''users'' users) ''users'' users (create_args bob) one_user = (Inr r, kv')"
    by (rule create_duplicate_key [OF hb, THEN conjunct2, THEN conjunct1, THEN mp, OF free])
  have "\<exists>k. createImpl (store_layer ''users'' users) ''users'' users (create_args eve) one_user
           = (Inl (DuplicateKeyError k), one_user)"
    by (rule create_duplicate_key [OF h, THEN conjunct2, THEN conjunct2, THEN mp,
          OF conjI [OF first sh]])
  from h first sh dup second same_id created show ?thesis
    by (intro conjI)
qed

text \<open>
  C2.  \<^verbatim>\<open>createMany\<close> applies \<^verbatim>\<open>create\<close> to each item in turn and is no transaction over
  the items: whatever the imported functions are, if the items before item \<open>k\<close> are created,
  leaving the store \<open>kv1\<close>, and creating item \<open>k\<close> in \<open>kv1\<close> fails, leaving \<open>kv2\<close>, then
  \<^verbatim>\<open>createMany\<close> leaves \<open>kv2\<close>: nothing of the items before \<open>k\<close> is undone.
\<close>

theorem createMany_keeps_committed:
  assumes "createManyImpl im tn td \<lparr>where' = w, select = sel, data = before\<rparr> kv = (Inr created, kv1)"
    and "createImpl im tn td \<lparr>where' = None, select = sel, data = item\<rparr> kv1 = (Inl e, kv2)"
  shows "snd (createManyImpl im tn td \<lparr>where' = w, select = sel, data = before @ item # rest\<rparr> kv) = kv2"
  using createMany_fails_at [OF assms] by simp

text \<open>
  \<^verbatim>\<open>ann\<close> and \<^verbatim>\<open>bob\<close> are created, \<^verbatim>\<open>eve\<close> fails on the email index, and the store left
  holds \<^verbatim>\<open>ann\<close> and \<^verbatim>\<open>bob\<close>.
\<close>

theorem createMany_keeps_committed_witness:
  "createManyImpl (store_layer ''users'' users) ''users'' users \<lparr>where' = None, select = None, data = [ann, bob]\<rparr> empty_store
     = (Inr [stamped ann (JNum 1), stamped bob (JNum 2)], two_users)
   \<and> createImpl (store_layer ''users'' users) ''users'' users \<lparr>where' = None, select = None, data = eve\<rparr> two_users
     = (Inl (DuplicateKeyError (''users_by_email'', JStr ''a@x.com'')), two_users)
   \<and> snd (createManyImpl (store_layer ''users'' users) ''users'' users
            \<lparr>where' = None, select = None, data = [ann, bob] @ eve # [bob]\<rparr> empty_store) = two_users
   \<and> store_get two_users (''users'', JStr ''1'') = Some (ann, 1)
   \<and> store_get two_users (''users'', JStr ''2'') = Some (bob, 2)"
proof -
  have before: "createManyImpl (store_layer ''users'' users) ''users'' users
      \<lparr>where' = None, select = None, data = [ann, bob]\<rparr> empty_store
     = (Inr [stamped ann (JNum 1), stamped bob (JNum 2)], two_users)"
    by code_simp
  have fails: "createImpl (store_layer ''users'' users) ''users'' users \<lparr>where' = None, select = None, data = eve\<rparr> two_users
     = (Inl (DuplicateKeyError (''users_by_email'', JStr ''a@x.com'')), two_users)"
    by code_simp
  have ann: "store_get two_users (''users'', JStr ''1'') = Some (ann, 1)"
    by code_simp
  have bob: "store_get two_users (''users'', JStr ''2'') = Some (bob, 2)"
    by code_simp
  from createMany_keeps_committed [OF before fails, of "[bob]"] before fails ann bob
  show ?thesis by simp
qed

text \<open>
  C3, as stated, fails: what \<^verbatim>\<open>createMany\<close> gives its caller on a failure is the thrown
  error alone.  Two calls that have applied different items (\<^verbatim>\<open>ann\<close>; \<^verbatim>\<open>bob\<close> and \<^verbatim>\<open>ann\<close>)
  before failing on \<^verbatim>\<open>eve\<close> give the caller the same value, so the list of the items
  applied is not part of it.
\<close>

theorem createMany_partial_list_counterexample:
  "fst (createManyImpl (store_layer ''users'' users) ''users'' users
          \<lparr>where' = None, select = None, data = [ann, eve]\<rparr> empty_store)
     = Inl (DuplicateKeyError (''users_by_email'', JStr ''a@x.com''))
   \<and> fst (createManyImpl (store_layer ''users'' users) ''users'' users
          \<lparr>where' = None, select = None, data = [bob, ann, eve]\<rparr> empty_store)
     = Inl (DuplicateKeyError (''users_by_email'', JStr ''a@x.com''))
   \<and> store_get (snd (createManyImpl (store_layer ''users'' users) ''users'' users
          \<lparr>where' = None, select = None, data = [ann, eve]\<rparr> empty_store)) (''users'', JStr ''2'')
     = None
   \<and> store_get (snd (createManyImpl (store_layer ''users'' users) ''users'' users
          \<lparr>where' = None, select = None, data = [bob, ann, eve]\<rparr> empty_store)) (''users'', JStr ''2'')
     = Some (bob, 1)"
  by code_simp

text \<open>
  C3, amended.  On an input where creating some item fails, \<^verbatim>\<open>createMany\<close> gives the caller
  the first failure, the error thrown by \<^verbatim>\<open>create\<close> for that item, and nothing else;
  \<^verbatim>\<open>createdItems\<close> is dropped.  \<^verbatim>\<open>updateMany\<close> (on a resolved set that is not empty) and
  \<^verbatim>\<open>deleteMany\<close> hand all resolved items to one call of \<^verbatim>\<open>update\<close> or \<^verbatim>\<open>remove\<close> and
  return or throw what that call does.
\<close>

theorem batch_surfaces_first_failure:
  "(createManyImpl im tn td \<lparr>where' = w, select = sel, data = before\<rparr> kv = (Inr created, kv1) \<and>
    createImpl im tn td \<lparr>where' = None, select = sel, data = item\<rparr> kv1 = (Inl e, kv2) \<longrightarrow>
      fst (createManyImpl im tn td \<lparr>where' = w, select = sel, data = before @ item # rest\<rparr> kv) = Inl e)
   \<and> (schemaToKeys im (schema td) (where_or_empty uargs) = Inr ukeys \<and>
      keysToIndexes im tn ukeys = Inr uindex \<and>
      whereToKeys im tn uindex (where_or_empty uargs) kv = (Inr ufound, ukv) \<and> ufound \<noteq> [] \<longrightarrow>
      updateManyImpl im tn td uargs kv
        = update im (map value' (updatedItems uargs ufound)) (map key ufound) ukv)
   \<and> (schemaToKeys im (schema td) (where_or_empty dargs) = Inr dkeys \<and>
      keysToIndexes im tn dkeys = Inr dindex \<and>
      whereToKeys im tn dindex (where_or_empty dargs) kv = (Inr dfound, dkv) \<longrightarrow>
      deleteManyImpl im tn td dargs kv = remove im (map key dfound) dkv)"
proof (intro conjI impI)
  assume "createManyImpl im tn td \<lparr>where' = w, select = sel, data = before\<rparr> kv = (Inr created, kv1) \<and>
    createImpl im tn td \<lparr>where' = None, select = sel, data = item\<rparr> kv1 = (Inl e, kv2)"
  then show "fst (createManyImpl im tn td \<lparr>where' = w, select = sel, data = before @ item # rest\<rparr> kv) = Inl e"
    by (simp add: createMany_fails_at)
next
  assume "schemaToKeys im (schema td) (where_or_empty uargs) = Inr ukeys \<and>
      keysToIndexes im tn ukeys = Inr uindex \<and>
      whereToKeys im tn uindex (where_or_empty uargs) kv = (Inr ufound, ukv) \<and> ufound \<noteq> []"
  then show "updateManyImpl im tn td uargs kv
        = update im (map value' (updatedItems uargs ufound)) (map key ufound) ukv"
    by (simp add: updateMany_resolved)
next
  assume "schemaToKeys im (schema td) (where_or_empty dargs) = Inr dkeys \<and>
      keysToIndexes im tn dkeys = Inr dindex \<and>
      whereToKeys im tn dindex (where_or_empty dargs) kv = (Inr dfound, dkv)"
  then show "deleteManyImpl im tn td dargs kv = remove im (map key dfound) dkv"
    by (simp add: deleteMany_resolved)
qed

text \<open>
  The three parts at the \<^verbatim>\<open>users\<close> table.
\<close>

theorem batch_surfaces_first_failure_witness:
  "fst (createManyImpl (store_layer ''users'' users) ''users'' users
          \<lparr>where' = None, select = None, data = [ann, bob] @ eve # [bob]\<rparr> empty_store)
     = Inl (DuplicateKeyError (''users_by_email'', JStr ''a@x.com''))
   \<and> updateManyImpl (store_layer ''users'' users) ''users'' users
         (update_args [(''id'', JStr ''1'')] [(''name'', JStr ''Anna'')]) two_users
     = updateRecords ''users'' users [[(''id'', JStr ''1''), (''email'', JStr ''a@x.com''), (''name'', JStr ''Anna'')]]
         [(''users'', JStr ''1'')] two_users
   \<and> deleteManyImpl (store_layer ''users'' users) ''users'' users (query_args [(''id'', JStr ''2'')]) two_users
     = removeRecords ''users'' users [(''users'', JStr ''2'')] two_users"
proof -
  have c1: "createManyImpl (store_layer ''users'' users) ''users'' users
      \<lparr>where' = None, select = None, data = [ann, bob]\<rparr> empty_store
     = (Inr [stamped ann (JNum 1), stamped bob (JNum 2)], two_users)"
    by code_simp
  have c2: "createImpl (store_layer ''users'' users) ''users'' users \<lparr>where' = None, select = None, data = eve\<rparr> two_users
     = (Inl (DuplicateKeyError (''users_by_email'', JStr ''a@x.com'')), two_users)"
    by code_simp
  have u1: "schemaToKeys (store_layer ''users'' users) (schema users)
      (where_or_empty (update_args [(''id'', JStr ''1'')] [(''name'', JStr ''Anna'')]))
     = Inr (encodeKeys (schema users) [(''id'', JStr ''1'')])"
    by (simp add: store_layer_def where_or_empty_def update_args_def)
  have u2: "keysToIndexes (store_layer ''users'' users) ''users'' (encodeKeys (schema users) [(''id'', JStr ''1'')])
     = Inr [(''users'', JStr ''1''), (''users_by_email'', JUndefined)]"
    by code_simp
  have u3: "whereToKeys (store_layer ''users'' users) ''users'' [(''users'', JStr ''1''), (''users_by_email'', JUndefined)]
      (where_or_empty (update_args [(''id'', JStr ''1'')] [(''name'', JStr ''Anna'')])) two_users
     = (Inr [\<lparr>key = (''users'', JStr ''1''), value' = ann, versionstamp = JNum 1\<rparr>], two_users)"
    by code_simp
  have d1: "schemaToKeys (store_layer ''users'' users) (schema users) (where_or_empty (query_args [(''id'', JStr ''2'')]))
     = Inr (encodeKeys (schema users) [(''id'', JStr ''2'')])"
    by (simp add: store_layer_def where_or_empty_def query_args_def)
  have d2: "keysToIndexes (store_layer ''users'' users) ''users'' (encodeKeys (schema users) [(''id'', JStr ''2'')])
     = Inr [(''users'', JStr ''2''), (''users_by_email'', JUndefined)]"
    by code_simp
  have d3: "whereToKeys (store_layer ''users'' users) ''users'' [(''users'', JStr ''2''), (''users_by_email'', JUndefined)]
      (where_or_empty (query_args [(''id'', JStr ''2'')])) two_users
     = (Inr [\<lparr>key = (''users'', JStr ''2''), value' = bob, versionstamp = JNum 2\<rparr>], two_users)"
    by code_simp
  have merged: "map value' (updatedItems (update_args [(''id'', JStr ''1'')] [(''name'', JStr ''Anna'')])
      [\<lparr>key = (''users'', JStr ''1''), value' = ann, versionstamp = JNum 1\<rparr>])
     = [[(''id'', JStr ''1''), (''email'', JStr ''a@x.com''), (''name'', JStr ''Anna'')]]"
    by code_simp
  have upd: "update (store_layer ''users'' users) = updateRecords ''users'' users"
    and del: "remove (store_layer ''users'' users) = removeRecords ''users'' users"
    by (simp_all add: store_layer_def)
  from batch_surfaces_first_failure
    [where im = "store_layer ''users'' users" and tn = "''users''" and td = users and kv = empty_store
       and w = None and sel = None and before = "[ann, bob]" and item = eve and rest = "[bob]"]
    c1 c2
  have first: "fst (createManyImpl (store_layer ''users'' users) ''users'' users
          \<lparr>where' = None, select = None, data = [ann, bob] @ eve # [bob]\<rparr> empty_store)
     = Inl (DuplicateKeyError (''users_by_email'', JStr ''a@x.com''))"
    by blast
  from batch_surfaces_first_failure
    [where im = "store_layer ''users'' users" and tn = "''users''" and td = users and kv = two_users
       and uargs = "update_args [(''id'', JStr ''1'')] [(''name'', JStr ''Anna'')]"
       and dargs = "query_args [(''id'', JStr ''2'')]"]
    u1 u2 u3 d1 d2 d3
  have "updateManyImpl (store_layer ''users'' users) ''users'' users
         (update_args [(''id'', JStr ''1'')] [(''name'', JStr ''Anna'')]) two_users
     = update (store_layer ''users'' users) (map value' (updatedItems (update_args [(''id'', JStr ''1'')] [(''name'', JStr ''Anna'')])
         [\<lparr>key = (''users'', JStr ''1''), value' = ann, versionstamp = JNum 1\<rparr>]))
         (map key [\<lparr>key = (''users'', JStr ''1''), value' = ann, versionstamp = JNum 1\<rparr>]) two_users"
    and "deleteManyImpl (store_layer ''users'' users) ''users'' users (query_args [(''id'', JStr ''2'')]) two_users
     = remove (store_layer ''users'' users) (map key [\<lparr>key = (''users'', JStr ''2''), value' = bob, versionstamp = JNum 2\<rparr>]) two_users"
    by blast+
  with first show ?thesis
    by (simp add: merged upd del)
qed

text \<open>
  C4.  For every table definition and every \<^verbatim>\<open>where\<close>, whatever the imported functions
  are, \<^verbatim>\<open>findFirst\<close> returns the first element of what \<^verbatim>\<open>findMany\<close> returns on the same
  arguments and store, is absent (\<open>None\<close>) exactly when that list is empty, fails as
  \<^verbatim>\<open>findMany\<close> fails, and leaves the same store.
\<close>

theorem findFirst_first_of_findMany:
  "findFirstImpl im tableName tableDefinition queryArgs kv =
     (case findManyImpl im tableName tableDefinition queryArgs kv of
        (Inl e, kv') \<Rightarrow> (Inl e, kv')
      | (Inr found, kv') \<Rightarrow> (Inr (case found of [] \<Rightarrow> None | x # _ \<Rightarrow> Some x), kv'))"
  by (simp add: findFirstImpl_def findManyImpl_def await_def return_def first_def
      split: prod.splits sum.splits)

text \<open>
  On the store with \<^verbatim>\<open>ann\<close> and \<^verbatim>\<open>bob\<close>: every user, and no user named Eve.
\<close>

theorem findFirst_first_of_findMany_witness:
  "findManyImpl (store_layer ''users'' users) ''users'' users (query_args []) two_users
     = (Inr [stamped ann (JNum 1), stamped bob (JNum 2)], two_users)
   \<and> findFirstImpl (store_layer ''users'' users) ''users'' users (query_args []) two_users
     = (Inr (Some (stamped ann (JNum 1))), two_users)
   \<and> findManyImpl (store_layer ''users'' users) ''users'' users (query_args [(''name'', JStr ''Eve'')]) two_users
     = (Inr [], two_users)
   \<and> findFirstImpl (store_layer ''users'' users) ''users'' users (query_args [(''name'', JStr ''Eve'')]) two_users
     = (Inr None, two_users)"
proof -
  have many: "findManyImpl (store_layer ''users'' users) ''users'' users (query_args []) two_users
     = (Inr [stamped ann (JNum 1), stamped bob (JNum 2)], two_users)"
    by code_simp
  have none: "findManyImpl (store_layer ''users'' users) ''users'' users (query_args [(''name'', JStr ''Eve'')]) two_users
     = (Inr [], two_users)"
    by code_simp
  show ?thesis
    using findFirst_first_of_findMany [of "store_layer ''users'' users" "''users''" users "query_args []" two_users]
      findFirst_first_of_findMany [of "store_layer ''users'' users" "''users''" users
        "query_args [(''name'', JStr ''Eve'')]" two_users]
    by (simp add: many none)
qed

text \<open>
  C5.  For every table definition, \<^verbatim>\<open>where\<close> and \<^verbatim>\<open>data\<close>: when the \<^verbatim>\<open>where\<close> resolves
  to no record, \<^verbatim>\<open>updateMany\<close> fails with \<open>PentagonUpdateError\<close> "Updating zero
  elements." (the specification's \<^verbatim>\<open>UpdateZeroRowsError\<close>) and leaves the store as the
  lookup left it; otherwise it hands every resolved record, merged with \<^verbatim>\<open>data\<close>, to
  \<^verbatim>\<open>update\<close> and returns the updated records that call returns.
\<close>

theorem updateMany_zero_rows:
  assumes "schemaToKeys im (schema td) (where_or_empty args) = Inr keys"
    and "keysToIndexes im tn keys = Inr indexKeys"
    and "whereToKeys im tn indexKeys (where_or_empty args) kv = (Inr foundItems, kv')"
  shows "updateManyImpl im tn td args kv =
     (if foundItems = [] then (Inl (PentagonUpdateError ''Updating zero elements.''), kv')
      else update im (map value' (updatedItems args foundItems)) (map key foundItems) kv')
    \<and> failure_of (PentagonUpdateError ''Updating zero elements.'') = UpdateZeroRows"
  using updateMany_resolved [OF assms] by simp

text \<open>
  On the store with \<^verbatim>\<open>ann\<close> and \<^verbatim>\<open>bob\<close>: no user has id 7; an empty \<^verbatim>\<open>where\<close> resolves
  to both users and both updated records are returned.
\<close>

theorem updateMany_zero_rows_witness:
  "updateManyImpl (store_layer ''users'' users) ''users'' users
       (update_args [(''id'', JStr ''7'')] [(''name'', JStr ''Anna'')]) two_users
     = (Inl (PentagonUpdateError ''Updating zero elements.''), two_users)
   \<and> fst (updateManyImpl (store_layer ''users'' users) ''users'' users (update_args [] [(''name'', JStr ''X'')]) two_users)
     = Inr [[(''id'', JStr ''1''), (''email'', JStr ''a@x.com''), (''name'', JStr ''X''),
             (''versionstamp'', JNum 3)],
            [(''id'', JStr ''2''), (''email'', JStr ''b@x.com''), (''name'', JStr ''X''),
             (''versionstamp'', JNum 4)]]"
proof -
  let ?none = "update_args [(''id'', JStr ''7'')] [(''name'', JStr ''Anna'')]"
  let ?all = "update_args [] [(''name'', JStr ''X'')]"
  have none: "execute (plan ''users'' (entityKeys ''users'' users (where_or_empty ?none))
      (where_or_empty ?none)) two_users = []"
    by code_simp
  have all: "execute (plan ''users'' (entityKeys ''users'' users (where_or_empty ?all))
      (where_or_empty ?all)) two_users
     = [\<lparr>key = (''users'', JStr ''1''), value' = ann, versionstamp = JNum 1\<rparr>,
        \<lparr>key = (''users'', JStr ''2''), value' = bob, versionstamp = JNum 2\<rparr>]"
    by code_simp
  have written: "fst (updateRecords ''users'' users
      (map value' (updatedItems ?all
         [\<lparr>key = (''users'', JStr ''1''), value' = ann, versionstamp = JNum 1\<rparr>,
          \<lparr>key = (''users'', JStr ''2''), value' = bob, versionstamp = JNum 2\<rparr>]))
      [(''users'', JStr ''1''), (''users'', JStr ''2'')] two_users)
     = Inr [[(''id'', JStr ''1''), (''email'', JStr ''a@x.com''), (''name'', JStr ''X''),
             (''versionstamp'', JNum 3)],
            [(''id'', JStr ''2''), (''email'', JStr ''b@x.com''), (''name'', JStr ''X''),
             (''versionstamp'', JNum 4)]]"
    by code_simp
  have found_none: "whereToKeys (store_layer ''users'' users) ''users''
      (entityKeys ''users'' users (where_or_empty ?none)) (where_or_empty ?none) two_users
     = (Inr [], two_users)"
    by (simp add: store_layer_whereToKeys none)
  have found_all: "whereToKeys (store_layer ''users'' users) ''users''
      (entityKeys ''users'' users (where_or_empty ?all)) (where_or_empty ?all) two_users
     = (Inr [\<lparr>key = (''users'', JStr ''1''), value' = ann, versionstamp = JNum 1\<rparr>,
             \<lparr>key = (''users'', JStr ''2''), value' = bob, versionstamp = JNum 2\<rparr>], two_users)"
    by (simp add: store_layer_whereToKeys all)
  from updateMany_zero_rows [OF store_layer_schemaToKeys store_layer_keysToIndexes found_none]
    updateMany_zero_rows [OF store_layer_schemaToKeys store_layer_keysToIndexes found_all]
  show ?thesis
    by (simp add: written store_layer_update)
qed

text \<open>
  C6, as stated, fails: when the \<^verbatim>\<open>where\<close> resolves to no record, \<^verbatim>\<open>update\<close> fails with
  the error \<^verbatim>\<open>updateMany\<close> throws, \<open>PentagonUpdateError\<close> "Updating zero elements.", which
  is the specification's \<^verbatim>\<open>UpdateZeroRowsError\<close> and not a \<^verbatim>\<open>NoMatchError\<close> of its own.
\<close>

theorem update_no_match_counterexample:
  "updateImpl (store_layer ''users'' users) ''users'' users
       (update_args [(''id'', JStr ''7'')] [(''name'', JStr ''Anna'')]) two_users
     = (Inl (PentagonUpdateError ''Updating zero elements.''), two_users)
   \<and> updateManyImpl (store_layer ''users'' users) ''users'' users
       (update_args [(''id'', JStr ''7'')] [(''name'', JStr ''Anna'')]) two_users
     = (Inl (PentagonUpdateError ''Updating zero elements.''), two_users)
   \<and> failure_of (PentagonUpdateError ''Updating zero elements.'') = UpdateZeroRows
   \<and> UpdateZeroRows \<noteq> NoMatch"
  by code_simp

text \<open>
  C6, amended.  \<^verbatim>\<open>update\<close> returns the first record \<^verbatim>\<open>updateMany\<close> returns on the same
  arguments (\<open>None\<close> if it returns none), and fails exactly as \<^verbatim>\<open>updateMany\<close> fails, with
  the same error: with \<open>PentagonUpdateError\<close> when \<^verbatim>\<open>updateMany\<close> would update zero
  records.
\<close>

theorem update_first_of_updateMany:
  "updateImpl im tableName tableDefinition updateArgs kv =
     (case updateManyImpl im tableName tableDefinition updateArgs kv of
        (Inl e, kv') \<Rightarrow> (Inl e, kv')
      | (Inr updated, kv') \<Rightarrow> (Inr (case updated of [] \<Rightarrow> None | x # _ \<Rightarrow> Some x), kv'))"
  by (simp add: updateImpl_def await_def return_def first_def split: prod.splits sum.splits)

text \<open>
  C7, as stated, fails.  Scenario C of the specification: \<^verbatim>\<open>deleteMany\<close> with an empty
  \<^verbatim>\<open>where\<close> on the empty store resolves to no record, raises no error and returns.
\<close>

theorem deleteMany_empty_counterexample:
  "deleteManyImpl (store_layer ''users'' users) ''users'' users \<lparr>where' = Some [], select = None, data = ()\<rparr> empty_store
     = (Inr (), empty_store)"
  by code_simp

text \<open>
  C7, amended.  \<^verbatim>\<open>delete\<close> and \<^verbatim>\<open>deleteMany\<close> have no check of their own for an empty
  resolved set, unlike \<^verbatim>\<open>updateMany\<close>: both hand the empty list of keys to \<^verbatim>\<open>remove\<close> and
  return what it returns.
\<close>

theorem deleteMany_empty_no_check:
  assumes "schemaToKeys im (schema td) (where_or_empty args) = Inr keys"
    and "keysToIndexes im tn keys = Inr indexKeys"
    and "whereToKeys im tn indexKeys (where_or_empty args) kv = (Inr [], kv')"
  shows "deleteManyImpl im tn td args kv = remove im [] kv'
       \<and> deleteImpl im tn td args kv = remove im [] kv'"
  using deleteMany_resolved [OF assms] by (simp add: deleteImpl_def deleteManyImpl_def)

text \<open>
  With \<open>writeDelete\<close> applied per record that is a return without error, and the store is
  left as it was: no record, no write.
\<close>

theorem deleteMany_empty_no_check_witness:
  "deleteManyImpl (store_layer ''users'' users) ''users'' users (query_args [(''id'', JStr ''7'')]) two_users
     = (Inr (), two_users)
   \<and> deleteImpl (store_layer ''users'' users) ''users'' users (query_args [(''id'', JStr ''7'')]) two_users
     = (Inr (), two_users)"
proof -
  let ?q = "query_args [(''id'', JStr ''7'')]"
  have none: "execute (plan ''users'' (entityKeys ''users'' users (where_or_empty ?q))
      (where_or_empty ?q)) two_users = []"
    by code_simp
  have found: "whereToKeys (store_layer ''users'' users) ''users'' (entityKeys ''users'' users (where_or_empty ?q))
      (where_or_empty ?q) two_users = (Inr [], two_users)"
    by (simp add: store_layer_whereToKeys none)
  from deleteMany_empty_no_check [OF store_layer_schemaToKeys store_layer_keysToIndexes found]
  show ?thesis
    by (simp add: store_layer_remove)
qed

text \<open>
  C8.  For every resolved set that is not empty and every \<^verbatim>\<open>data\<close> (an object: each name
  once), the entities \<^verbatim>\<open>updateMany\<close> and \<^verbatim>\<open>update\<close> hand to \<^verbatim>\<open>update\<close> for writing are, one
  for each resolved record, the shallow overwrite of the record by \<^verbatim>\<open>data\<close>: a field
  present in \<^verbatim>\<open>data\<close> has the value of \<^verbatim>\<open>data\<close>, every other field the value of the
  existing record.
\<close>

theorem update_shallow_overwrite:
  assumes "schemaToKeys im (schema td) (where_or_empty args) = Inr keys"
    and "keysToIndexes im tn keys = Inr indexKeys"
    and "whereToKeys im tn indexKeys (where_or_empty args) kv = (Inr foundItems, kv')"
    and "foundItems \<noteq> []"
    and "distinct (map fst (data args))"
  shows "\<exists>written.
      updateManyImpl im tn td args kv = update im written (map key foundItems) kv'
    \<and> updateImpl im tn td args kv
        = await (update im written (map key foundItems)) (\<lambda>updated. return (first updated)) kv'
    \<and> length written = length foundItems
    \<and> (\<forall>i<length foundItems. \<forall>f.
          map_of (written ! i) f =
            (case map_of (data args) f of
               Some v \<Rightarrow> Some v
             | None \<Rightarrow> map_of (value' (foundItems ! i)) f))"
proof -
  let ?written = "map value' (updatedItems args foundItems)"
  have many: "updateManyImpl im tn td args kv = update im ?written (map key foundItems) kv'"
    using updateMany_resolved [OF assms(1-3)] assms(4) by simp
  have one: "updateImpl im tn td args kv
      = await (update im ?written (map key foundItems)) (\<lambda>updated. return (first updated)) kv'"
    by (simp add: updateImpl_def await_def many)
  have len: "length ?written = length foundItems"
    by (simp add: updatedItems_def)
  have fields: "map_of (?written ! i) f =
      (case map_of (data args) f of
         Some v \<Rightarrow> Some v
       | None \<Rightarrow> map_of (value' (foundItems ! i)) f)"
    if "i < length foundItems" for i f
    using that assms(5) by (simp add: updatedItems_def map_of_spread_field)
  from many one len fields show ?thesis by blast
qed

text \<open>
  On the store with \<^verbatim>\<open>ann\<close> and \<^verbatim>\<open>bob\<close>: the name is overwritten, id and email are
  kept.
\<close>

theorem update_shallow_overwrite_witness:
  "\<exists>written.
      updateManyImpl (store_layer ''users'' users) ''users'' users (update_args [] [(''name'', JStr ''X'')]) two_users
        = updateRecords ''users'' users written [(''users'', JStr ''1''), (''users'', JStr ''2'')] two_users
    \<and> length written = 2
    \<and> map_of (written ! 0) ''name'' = Some (JStr ''X'')
    \<and> map_of (written ! 0) ''email'' = Some (JStr ''a@x.com'')
    \<and> map_of (written ! 1) ''name'' = Some (JStr ''X'')
    \<and> map_of (written ! 1) ''id'' = Some (JStr ''2'')"
proof -
  let ?all = "update_args [] [(''name'', JStr ''X'')]"
  let ?found = "[\<lparr>key = (''users'', JStr ''1''), value' = ann, versionstamp = JNum 1\<rparr>,
        \<lparr>key = (''users'', JStr ''2''), value' = bob, versionstamp = JNum 2\<rparr>]"
  have all: "execute (plan ''users'' (entityKeys ''users'' users (where_or_empty ?all))
      (where_or_empty ?all)) two_users = ?found"
    by code_simp
  have found: "whereToKeys (store_layer ''users'' users) ''users'' (entityKeys ''users'' users (where_or_empty ?all))
      (where_or_empty ?all) two_users = (Inr ?found, two_users)"
    by (simp add: store_layer_whereToKeys all)
  have ne: "?found \<noteq> []" by simp
  have d: "distinct (map fst (data ?all))" by (simp add: update_args_def)
  from update_shallow_overwrite [OF store_layer_schemaToKeys store_layer_keysToIndexes found ne d]
  obtain written where
    w: "updateManyImpl (store_layer ''users'' users) ''users'' users ?all two_users
          = update (store_layer ''users'' users) written (map key ?found) two_users"
    and l: "length written = length ?found"
    and f: "\<And>i f. i < length ?found \<Longrightarrow>
          map_of (written ! i) f =
            (case map_of (data ?all) f of
               Some v \<Rightarrow> Some v
             | None \<Rightarrow> map_of (value' (?found ! i)) f)"
    by blast
  have "map_of (written ! 0) ''name'' = Some (JStr ''X'')"
    and "map_of (written ! 0) ''email'' = Some (JStr ''a@x.com'')"
    and "map_of (written ! 1) ''name'' = Some (JStr ''X'')"
    and "map_of (written ! 1) ''id'' = Some (JStr ''2'')"
    by (simp_all add: f update_args_def ann_def bob_def)
  with w l show ?thesis
    by (auto simp: store_layer_update)
qed

text \<open>
  C9 does not hold of the code.  The claim: every write-back through \<^verbatim>\<open>update\<close> and
  \<^verbatim>\<open>updateMany\<close> presents to the store the version stamp last observed for the record, the
  one read when the record was resolved, and is rejected as a conflict if that stamp does
  not match.  \<^verbatim>\<open>updateManyImpl\<close> computes a version stamp for each merged item, but hands
  \<^verbatim>\<open>update\<close> the values of the merged items and the keys of the found items only.
  Whatever version stamp the lookup has observed for the resolved records, and whatever the
  imported functions are, \<^verbatim>\<open>updateMany\<close> and \<^verbatim>\<open>update\<close> return or throw the same and leave
  the same store: the observed stamp does not reach the store.
\<close>

theorem updateMany_drops_token:
  "updateManyImpl (observing stamp im) tableName tableDefinition updateArgs kv
     = updateManyImpl im tableName tableDefinition updateArgs kv
   \<and> updateImpl (observing stamp im) tableName tableDefinition updateArgs kv
     = updateImpl im tableName tableDefinition updateArgs kv"
proof -
  have many: "updateManyImpl (observing stamp im) tableName tableDefinition updateArgs kv
     = updateManyImpl im tableName tableDefinition updateArgs kv" for kv
    by (simp add: updateManyImpl_def observing_def call_def await_def throw_def
        updatedItems_observed comp_def split: sum.splits prod.splits)
  then show ?thesis
    by (simp add: updateImpl_def await_def)
qed

text \<open>
  The record of \<^verbatim>\<open>ann\<close> is held under version stamp 1 and observed under the older stamp
  0.  The merged item is given the observed stamp 0, and \<open>writeUpdate\<close> for a record observed
  under stamp 0 is a \<open>ConflictError\<close>; the write of \<^verbatim>\<open>updateMany\<close> is applied all the
  same.
\<close>

theorem updateMany_drops_token_witness:
  "whereToKeys (observing (JNum 0) (store_layer ''users'' users)) ''users''
       (entityKeys ''users'' users [(''id'', JStr ''1'')]) [(''id'', JStr ''1'')] two_users
     = (Inr [\<lparr>key = (''users'', JStr ''1''), value' = ann, versionstamp = JNum 0\<rparr>], two_users)
   \<and> store_get two_users (''users'', JStr ''1'') = Some (ann, 1)
   \<and> map versionstamp
        (updatedItems (update_args [(''id'', JStr ''1'')] [(''name'', JStr ''Anna'')])
           [\<lparr>key = (''users'', JStr ''1''), value' = ann, versionstamp = JNum 0\<rparr>])
     = [JNum 0]
   \<and> writeUpdate ''users'' users (ann, 0)
        [(''id'', JStr ''1''), (''email'', JStr ''a@x.com''), (''name'', JStr ''Anna'')] two_users
     = (Inl (ConflictError (''users'', JStr ''1'')), two_users)
   \<and> fst (updateManyImpl (observing (JNum 0) (store_layer ''users'' users)) ''users'' users
        (update_args [(''id'', JStr ''1'')] [(''name'', JStr ''Anna'')]) two_users)
     = Inr [[(''id'', JStr ''1''), (''email'', JStr ''a@x.com''), (''name'', JStr ''Anna''),
             (''versionstamp'', JNum 3)]]
   \<and> store_get (snd (updateManyImpl (observing (JNum 0) (store_layer ''users'' users)) ''users'' users
        (update_args [(''id'', JStr ''1'')] [(''name'', JStr ''Anna'')]) two_users)) (''users'', JStr ''1'')
     = Some ([(''id'', JStr ''1''), (''email'', JStr ''a@x.com''), (''name'', JStr ''Anna'')], 3)"
proof -
  have observed: "whereToKeys (observing (JNum 0) (store_layer ''users'' users)) ''users''
       (entityKeys ''users'' users [(''id'', JStr ''1'')]) [(''id'', JStr ''1'')] two_users
     = (Inr [\<lparr>key = (''users'', JStr ''1''), value' = ann, versionstamp = JNum 0\<rparr>], two_users)"
    by code_simp
  have held: "store_get two_users (''users'', JStr ''1'') = Some (ann, 1)"
    by code_simp
  have computed: "map versionstamp
        (updatedItems (update_args [(''id'', JStr ''1'')] [(''name'', JStr ''Anna'')])
           [\<lparr>key = (''users'', JStr ''1''), value' = ann, versionstamp = JNum 0\<rparr>])
     = [JNum 0]"
    by code_simp
  have rejected: "writeUpdate ''users'' users (ann, 0)
        [(''id'', JStr ''1''), (''email'', JStr ''a@x.com''), (''name'', JStr ''Anna'')] two_users
     = (Inl (ConflictError (''users'', JStr ''1'')), two_users)"
    by code_simp
  have returned: "fst (updateManyImpl (store_layer ''users'' users) ''users'' users
        (update_args [(''id'', JStr ''1'')] [(''name'', JStr ''Anna'')]) two_users)
     = Inr [[(''id'', JStr ''1''), (''email'', JStr ''a@x.com''), (''name'', JStr ''Anna''),
             (''versionstamp'', JNum 3)]]"
    by code_simp
  have written: "store_get (snd (updateManyImpl (store_layer ''users'' users) ''users'' users
        (update_args [(''id'', JStr ''1'')] [(''name'', JStr ''Anna'')]) two_users)) (''users'', JStr ''1'')
     = Some ([(''id'', JStr ''1''), (''email'', JStr ''a@x.com''), (''name'', JStr ''Anna'')], 3)"
    by code_simp
  from updateMany_drops_token [of "JNum 0" "store_layer ''users'' users" "''users''" users
      "update_args [(''id'', JStr ''1'')] [(''name'', JStr ''Anna'')]" two_users]
    observed held computed rejected returned written
  show ?thesis by simp
qed

text \<open>
  C10.  \<^verbatim>\<open>delete\<close> and \<^verbatim>\<open>deleteMany\<close> are extensionally equal: for every table definition,
  \<^verbatim>\<open>where\<close> argument and store, whatever the imported functions are, both resolve the same
  keys, remove the same records, return or throw the same and leave the same store.
\<close>

theorem delete_eq_deleteMany:
  "deleteImpl im tableName tableDefinition queryArgs kv
     = deleteManyImpl im tableName tableDefinition queryArgs kv"
  by (simp add: deleteImpl_def deleteManyImpl_def)

end
